theory Spec2Isabelle
  imports Main
begin

section \<open>JavaScript values\<close>

text \<open>
  The dispatcher \<^verbatim>\<open>switchCase\<close> (src/src/switchCase.ts) inspects its arguments at run
  time (\<^verbatim>\<open>typeof\<close>, \<^verbatim>\<open>Array.isArray\<close>, \<^verbatim>\<open>=== undefined\<close>), so the embedding works on a
  universe of JavaScript values.

  \<^item> Numbers are the integers (no fractions, no \<^verbatim>\<open>NaN\<close>); symbols and bigints are left out.
  \<^item> The conversions \<^verbatim>\<open>String(v)\<close> and \<^verbatim>\<open>JSON.stringify(v)\<close> are the host's: they may call
    \<^verbatim>\<open>toString\<close> or \<^verbatim>\<open>toJSON\<close> of the value, and they may throw.
  \<^item> A function value is a reference \<open>Fun f\<close>; what calling it does is given by the host
    (\<open>call_fn\<close> below). Functions are pure: a call may return or throw, nothing else.
  \<^item> An object is \<open>Obj a fs\<close>: its identity \<open>a\<close> (what \<^verbatim>\<open>===\<close> compares) and its own
    properties \<open>fs\<close> in insertion order. An array is \<open>Arr a xs\<close>.
  \<^item> The own properties of a value are data properties (no getters); what is found
    beyond them is left to the host (\<open>inherited\<close> below).
  \<^item> An argument that is not passed is \<open>Undefined\<close>, as in JavaScript.
\<close>

datatype jsval =
    Undefined
  | Null
  | Bool bool
  | Num int
  | Str string
  | Fun nat
  | Obj nat "(string \<times> jsval) list"
  | Arr nat "jsval list"

text \<open>
  A thrown value: \<open>Error msg\<close> is \<^verbatim>\<open>new Error(msg)\<close>; \<open>TypeError\<close> is what the engine
  throws when a non-function is called or a property of \<^verbatim>\<open>null\<close>/\<^verbatim>\<open>undefined\<close> is read.
\<close>

datatype error = Error string | TypeError

text \<open>
  The host is the part of the JavaScript engine the dispatcher relies on: what a call of
  the function \<open>f\<close> does (\<open>call_fn\<close>); what a property read finds when the value has no
  own property of that name (\<open>inherited\<close>: the prototype chain, for instance
  \<^verbatim>\<open>Object.prototype.toString\<close> on an object or \<^verbatim>\<open>String.prototype.match\<close> on a string;
  \<open>Undefined\<close> where there is none); the conversion \<^verbatim>\<open>String(v)\<close> (\<open>to_string\<close>), which
  throws or returns a string; and \<^verbatim>\<open>JSON.stringify(v)\<close> (\<open>json_stringify\<close>), which throws
  or returns a string or, as \<open>None\<close>, \<^verbatim>\<open>undefined\<close>.
\<close>

record host =
  call_fn :: "nat \<Rightarrow> jsval list \<Rightarrow> error + jsval"
  inherited :: "jsval \<Rightarrow> string \<Rightarrow> jsval"
  to_string :: "jsval \<Rightarrow> error + string"
  json_stringify :: "jsval \<Rightarrow> error + string option"

subsection \<open>Run-time type tests, truthiness, strict equality\<close>

fun is_function :: "jsval \<Rightarrow> bool" where
  "is_function (Fun f) = True"
| "is_function v = False"

fun is_array :: "jsval \<Rightarrow> bool" where
  "is_array (Arr a xs) = True"
| "is_array v = False"

text \<open>\<^verbatim>\<open>typeof v === "object"\<close>: objects, arrays and \<^verbatim>\<open>null\<close>.\<close>

fun typeof_object :: "jsval \<Rightarrow> bool" where
  "typeof_object Null = True"
| "typeof_object (Obj a fs) = True"
| "typeof_object (Arr a xs) = True"
| "typeof_object v = False"

fun truthy :: "jsval \<Rightarrow> bool" where
  "truthy Undefined = False"
| "truthy Null = False"
| "truthy (Bool b) = b"
| "truthy (Num n) = (n \<noteq> 0)"
| "truthy (Str s) = (s \<noteq> [])"
| "truthy v = True"

text \<open>\<^verbatim>\<open>a === b\<close>: primitives by value, objects and arrays by identity.\<close>

fun strict_eq :: "jsval \<Rightarrow> jsval \<Rightarrow> bool" where
  "strict_eq (Obj a fs) (Obj b gs) = (a = b)"
| "strict_eq (Arr a xs) (Arr b ys) = (a = b)"
| "strict_eq v w = (v = w)"

text \<open>\<^verbatim>\<open>f(args)\<close>: calling anything but a function throws a TypeError.\<close>

fun call :: "host \<Rightarrow> jsval \<Rightarrow> jsval list \<Rightarrow> error + jsval" where
  "call h (Fun f) args = call_fn h f args"
| "call h v args = Inl TypeError"

subsection \<open>Decimal numerals and property keys\<close>

fun show_nat :: "nat \<Rightarrow> string" where
  "show_nat n =
     (if n < 10 then [''0123456789'' ! n]
      else show_nat (n div 10) @ [''0123456789'' ! (n mod 10)])"

declare show_nat.simps [simp del]

definition show_int :: "int \<Rightarrow> string" where
  "show_int i = (if i < 0 then CHR ''-'' # show_nat (nat (- i)) else show_nat (nat i))"

definition is_digit :: "char \<Rightarrow> bool" where
  "is_digit c = (c \<in> set ''0123456789'')"

definition parse_int :: "string \<Rightarrow> int" where
  "parse_int s = foldl (\<lambda>n c. 10 * n + (of_char c - 48)) 0 s"

text \<open>
  An array index is a canonical numeric string below \<open>2^32 - 1\<close>. Such keys are the ones
  an object enumerates first, in ascending numeric order, whatever their insertion order.
\<close>

definition is_array_index :: "string \<Rightarrow> bool" where
  "is_array_index k =
     (k \<noteq> [] \<and> list_all is_digit k \<and> (hd k \<noteq> CHR ''0'' \<or> length k = 1)
        \<and> parse_int k < 4294967295)"

text \<open>
  The order in which \<^verbatim>\<open>Object.keys\<close> lists string keys that were inserted in the order
  \<open>ks\<close>: array indices ascending, then every other key in insertion order.
\<close>

definition key_order :: "string list \<Rightarrow> string list" where
  "key_order ks =
     sort_key parse_int (filter is_array_index ks)
       @ filter (\<lambda>k. \<not> is_array_index k) ks"

fun object_keys :: "jsval \<Rightarrow> error + string list" where
  "object_keys Undefined = Inl TypeError"
| "object_keys Null = Inl TypeError"
| "object_keys (Obj a fs) = Inr (key_order (map fst fs))"
| "object_keys (Arr a xs) = Inr (map show_nat [0..<length xs])"
| "object_keys (Str s) = Inr (map show_nat [0..<length s])"
| "object_keys v = Inr []"

text \<open>
  \<^verbatim>\<open>v[k]\<close> and \<^verbatim>\<open>v.k\<close>: reading a property of \<^verbatim>\<open>undefined\<close> or \<^verbatim>\<open>null\<close> throws; an
  own property wins over an inherited one of the same name.
\<close>

fun get_prop :: "host \<Rightarrow> jsval \<Rightarrow> string \<Rightarrow> error + jsval" where
  "get_prop h Undefined k = Inl TypeError"
| "get_prop h Null k = Inl TypeError"
| "get_prop h (Obj a fs) k =
     Inr (case map_of fs k of Some v \<Rightarrow> v | None \<Rightarrow> inherited h (Obj a fs) k)"
| "get_prop h (Arr a xs) k =
     Inr (if is_array_index k \<and> nat (parse_int k) < length xs then xs ! nat (parse_int k)
          else if k = ''length'' then Num (int (length xs))
          else inherited h (Arr a xs) k)"
| "get_prop h (Str s) k =
     Inr (if is_array_index k \<and> nat (parse_int k) < length s then Str [s ! nat (parse_int k)]
          else if k = ''length'' then Num (int (length s))
          else inherited h (Str s) k)"
| "get_prop h v k = Inr (inherited h v k)"

subsection \<open>Texts\<close>

text \<open>\<^verbatim>\<open>xs.join(sep)\<close> on an array of strings.\<close>

fun join :: "string \<Rightarrow> string list \<Rightarrow> string" where
  "join sep [] = []"
| "join sep [x] = x"
| "join sep (x # y # ys) = x @ sep @ join sep (y # ys)"

text \<open>
  The text a template literal inserts for the result of \<^verbatim>\<open>JSON.stringify\<close>: the
  string, or \<^verbatim>\<open>undefined\<close> spelled out.
\<close>

definition template_text :: "string option \<Rightarrow> string" where
  "template_text t = (case t of None \<Rightarrow> ''undefined'' | Some u \<Rightarrow> u)"

section \<open>The dispatcher\<close>

text \<open>
  The expression \<^verbatim>\<open>typeof handler === "function" ? handler(value) : handler\<close>, which
  \<^verbatim>\<open>switchCase\<close> repeats in every mode.
\<close>

definition resolve :: "host \<Rightarrow> jsval \<Rightarrow> jsval \<Rightarrow> error + jsval" where
  "resolve h handler val = (if is_function handler then call h handler [val] else Inr handler)"

text \<open>
  The test \<^verbatim>\<open>typeof match === "function" ? match(value) : match === value\<close> of the
  builder and of the object-based scan, with the truthiness the \<^verbatim>\<open>if\<close> applies to it.
\<close>

definition is_match :: "host \<Rightarrow> jsval \<Rightarrow> jsval \<Rightarrow> error + bool" where
  "is_match h match val =
     (if is_function match
      then (case call h match [val] of Inl e \<Rightarrow> Inl e | Inr r \<Rightarrow> Inr (truthy r))
      else Inr (strict_eq match val))"

text \<open>
  \<^verbatim>\<open>throw new Error(`No matching case for value: ${JSON.stringify(value)}`)\<close>: what is
  thrown is that error, or whatever \<^verbatim>\<open>JSON.stringify\<close> throws first.
\<close>

definition no_match_error :: "host \<Rightarrow> jsval \<Rightarrow> error" where
  "no_match_error h val =
     (case json_stringify h val of
        Inl e \<Rightarrow> e
      | Inr t \<Rightarrow> Error (''No matching case for value: '' @ template_text t))"

text \<open>
  The tail every value-based mode ends with:
  \<^verbatim>\<open>if (defaultFn) return defaultFn(value); throw new Error(...)\<close>.
\<close>

definition default_or_throw :: "host \<Rightarrow> jsval \<Rightarrow> jsval \<Rightarrow> error + jsval" where
  "default_or_throw h defaultFn val =
     (if truthy defaultFn then call h defaultFn [val] else Inl (no_match_error h val))"

subsection \<open>Chainable builder\<close>

text \<open>
  The closure state of the builder: the subject, the array \<^verbatim>\<open>cases\<close> of
  \<^verbatim>\<open>{match, handler}\<close> entries and the variable \<^verbatim>\<open>defaultFn\<close>.
\<close>

record builder =
  subject :: jsval
  cases :: "(jsval \<times> jsval) list"
  defaultFn :: jsval

definition new_builder :: "jsval \<Rightarrow> builder" where
  "new_builder val = \<lparr>subject = val, cases = [], defaultFn = Undefined\<rparr>"

definition builder_case :: "jsval \<Rightarrow> jsval \<Rightarrow> builder \<Rightarrow> builder" where
  "builder_case match handler b = b\<lparr>cases := cases b @ [(match, handler)]\<rparr>"

definition builder_default :: "jsval \<Rightarrow> builder \<Rightarrow> builder" where
  "builder_default handler b = b\<lparr>defaultFn := handler\<rparr>"

text \<open>
  The \<^verbatim>\<open>for\<close> loop of \<^verbatim>\<open>run\<close>: \<open>Inr (Some r)\<close> is \<^verbatim>\<open>return r\<close> from inside the loop,
  \<open>Inr None\<close> is the loop running to its end.
\<close>

fun run_loop :: "host \<Rightarrow> jsval \<Rightarrow> (jsval \<times> jsval) list \<Rightarrow> error + jsval option" where
  "run_loop h val [] = Inr None"
| "run_loop h val ((match, handler) # rest) =
     (case is_match h match val of
        Inl e \<Rightarrow> Inl e
      | Inr True \<Rightarrow> map_sum id Some (resolve h handler val)
      | Inr False \<Rightarrow> run_loop h val rest)"

text \<open>\<^verbatim>\<open>run()\<close> returns its result together with the builder state it leaves behind.\<close>

definition run :: "host \<Rightarrow> builder \<Rightarrow> (error + jsval) \<times> builder" where
  "run h b =
     ((case run_loop h (subject b) (cases b) of
         Inl e \<Rightarrow> Inl e
       | Inr (Some r) \<Rightarrow> Inr r
       | Inr None \<Rightarrow> default_or_throw h (defaultFn b) (subject b)),
      b)"

definition exhaustive :: "host \<Rightarrow> builder \<Rightarrow> (error + jsval) \<times> builder" where
  "exhaustive h b = run h b"

subsection \<open>Array-based mode\<close>

text \<open>
  \<^verbatim>\<open>for (const { match, handler } of cases) if (match(value)) return ...\<close>: each element
  is destructured, and \<^verbatim>\<open>match\<close> is called whatever it is.
\<close>

fun array_loop :: "host \<Rightarrow> jsval \<Rightarrow> jsval list \<Rightarrow> error + jsval option" where
  "array_loop h val [] = Inr None"
| "array_loop h val (entry # rest) =
     (case get_prop h entry ''match'' of
        Inl e \<Rightarrow> Inl e
      | Inr match \<Rightarrow>
          (case get_prop h entry ''handler'' of
             Inl e \<Rightarrow> Inl e
           | Inr handler \<Rightarrow>
               (case call h match [val] of
                  Inl e \<Rightarrow> Inl e
                | Inr r \<Rightarrow>
                    if truthy r then map_sum id Some (resolve h handler val)
                    else array_loop h val rest)))"

fun elements :: "jsval \<Rightarrow> jsval list" where
  "elements (Arr a xs) = xs"
| "elements v = []"

definition array_based :: "host \<Rightarrow> jsval \<Rightarrow> jsval \<Rightarrow> jsval \<Rightarrow> error + jsval" where
  "array_based h val cs casesOrDefault =
     (case array_loop h val (elements cs) of
        Inl e \<Rightarrow> Inl e
      | Inr (Some r) \<Rightarrow> Inr r
      | Inr None \<Rightarrow> default_or_throw h casesOrDefault val)"

subsection \<open>Object-based mode (literal map, predicate map)\<close>

text \<open>
  One turn of \<^verbatim>\<open>for (const key of Object.keys(cases))\<close>: \<open>Inr None\<close> is "go on with the
  next key".
\<close>

definition object_entry :: "host \<Rightarrow> jsval \<Rightarrow> jsval \<Rightarrow> error + jsval option" where
  "object_entry h val c =
     (if is_function c then Inr None
      else
        (case get_prop h c ''match'' of
           Inl e \<Rightarrow> Inl e
         | Inr match \<Rightarrow>
             (case is_match h match val of
                Inl e \<Rightarrow> Inl e
              | Inr False \<Rightarrow> Inr None
              | Inr True \<Rightarrow>
                  (case get_prop h c ''handler'' of
                     Inl e \<Rightarrow> Inl e
                   | Inr handler \<Rightarrow> map_sum id Some (resolve h handler val)))))"

fun object_loop :: "host \<Rightarrow> jsval \<Rightarrow> jsval \<Rightarrow> string list \<Rightarrow> error + jsval option" where
  "object_loop h val cs [] = Inr None"
| "object_loop h val cs (key # rest) =
     (case get_prop h cs key of
        Inl e \<Rightarrow> Inl e
      | Inr c \<Rightarrow>
          (case object_entry h val c of
             Inl e \<Rightarrow> Inl e
           | Inr (Some r) \<Rightarrow> Inr (Some r)
           | Inr None \<Rightarrow> object_loop h val cs rest))"

definition object_based :: "host \<Rightarrow> jsval \<Rightarrow> jsval \<Rightarrow> jsval \<Rightarrow> error + jsval" where
  "object_based h val cs casesOrDefault =
     (case to_string h val of
        Inl e \<Rightarrow> Inl e
      | Inr key \<Rightarrow>
          (case get_prop h cs key of
             Inl e \<Rightarrow> Inl e
           | Inr literalHandler \<Rightarrow>
               if literalHandler \<noteq> Undefined then
                 (if is_function literalHandler then call h literalHandler []
                  else Inr literalHandler)
               else
                 (case object_keys cs of
                    Inl e \<Rightarrow> Inl e
                  | Inr keys \<Rightarrow>
                      (case object_loop h val cs keys of
                         Inl e \<Rightarrow> Inl e
                       | Inr (Some r) \<Rightarrow> Inr r
                       | Inr None \<Rightarrow> default_or_throw h casesOrDefault val))))"

subsection \<open>Discriminated-union mode\<close>

text \<open>
  \<^verbatim>\<open>value[discriminator]\<close> throws on \<^verbatim>\<open>null\<close> and \<^verbatim>\<open>undefined\<close> before the
  discriminator is turned into a property name. The name is the text
  \<^verbatim>\<open>String(discriminator)\<close>, which the error message spells out again.
\<close>

definition discriminated ::
  "host \<Rightarrow> jsval \<Rightarrow> jsval \<Rightarrow> jsval \<Rightarrow> jsval \<Rightarrow> error + jsval" where
  "discriminated h val discriminator cs defaultHandler =
     (if val = Undefined \<or> val = Null then Inl TypeError
      else
        (case to_string h discriminator of
           Inl e \<Rightarrow> Inl e
         | Inr name \<Rightarrow>
             (case get_prop h val name of
                Inl e \<Rightarrow> Inl e
              | Inr field \<Rightarrow>
                  (case to_string h field of
                     Inl e \<Rightarrow> Inl e
                   | Inr discriminatorValue \<Rightarrow>
                       (case get_prop h cs discriminatorValue of
                          Inl e \<Rightarrow> Inl e
                        | Inr handlerOrValue \<Rightarrow>
                            if handlerOrValue \<noteq> Undefined then resolve h handlerOrValue val
                            else if truthy defaultHandler then call h defaultHandler [val]
                            else
                              (case to_string h discriminator of
                                 Inl e \<Rightarrow> Inl e
                               | Inr shown \<Rightarrow>
                                   Inl (Error (''No matching case for '' @ shown @ '': ''
                                                 @ discriminatorValue))))))))"

subsection \<open>The entry point\<close>

datatype ret = Result jsval | Chain builder

definition switchCase ::
  "host \<Rightarrow> jsval \<Rightarrow> jsval \<Rightarrow> jsval \<Rightarrow> jsval \<Rightarrow> error + ret" where
  "switchCase h val discriminatorOrCases casesOrDefault defaultHandler =
     (if discriminatorOrCases = Undefined then Inr (Chain (new_builder val))
      else if is_array discriminatorOrCases then
        map_sum id Result (array_based h val discriminatorOrCases casesOrDefault)
      else if typeof_object discriminatorOrCases then
        map_sum id Result (object_based h val discriminatorOrCases casesOrDefault)
      else
        map_sum id Result
          (discriminated h val discriminatorOrCases casesOrDefault defaultHandler))"

subsection \<open>Entries that are tested and do not match\<close>

text \<open>
  The entries are exhausted when every entry is tested and its test comes out falsy. For
  an array entry the test is the call \<^verbatim>\<open>match(value)\<close>; in the object-based scan an
  entry that is a function is passed over, and any other entry is tested through its
  \<^verbatim>\<open>match\<close> property.
\<close>

definition array_entry_fails :: "host \<Rightarrow> jsval \<Rightarrow> jsval \<Rightarrow> bool" where
  "array_entry_fails h val entry =
     (case get_prop h entry ''match'' of
        Inl e \<Rightarrow> False
      | Inr match \<Rightarrow> (case call h match [val] of Inl e \<Rightarrow> False | Inr r \<Rightarrow> \<not> truthy r))"

definition object_entry_fails :: "host \<Rightarrow> jsval \<Rightarrow> jsval \<Rightarrow> bool" where
  "object_entry_fails h val c =
     (is_function c \<or>
      (case get_prop h c ''match'' of
         Inl e \<Rightarrow> False
       | Inr match \<Rightarrow> is_match h match val = Inr False))"

text \<open>
  An entry that is tested and matches, together with the handler it carries.
\<close>

definition array_entry_matches :: "host \<Rightarrow> jsval \<Rightarrow> jsval \<Rightarrow> jsval \<Rightarrow> bool" where
  "array_entry_matches h val entry handler =
     (get_prop h entry ''handler'' = Inr handler \<and>
      (case get_prop h entry ''match'' of
         Inl e \<Rightarrow> False
       | Inr match \<Rightarrow> (case call h match [val] of Inl e \<Rightarrow> False | Inr r \<Rightarrow> truthy r)))"

definition object_entry_matches :: "host \<Rightarrow> jsval \<Rightarrow> jsval \<Rightarrow> jsval \<Rightarrow> bool" where
  "object_entry_matches h val c handler =
     (\<not> is_function c \<and> get_prop h c ''handler'' = Inr handler \<and>
      (case get_prop h c ''match'' of
         Inl e \<Rightarrow> False
       | Inr match \<Rightarrow> is_match h match val = Inr True))"

subsection \<open>The call shapes as the specification words them\<close>



subsection \<open>A host for concrete runs\<close>

text \<open>
  Five functions to run the dispatcher on:
  \<^verbatim>\<open>() => true\<close>, \<^verbatim>\<open>() => false\<close>, \<^verbatim>\<open>v => v\<close>, \<^verbatim>\<open>a => a >= 0\<close> and
  \<^verbatim>\<open>() => 'fallback'\<close>; any other reference is a function that throws. Nothing is
  inherited: its values have their own properties only.
\<close>

definition example_call :: "nat \<Rightarrow> jsval list \<Rightarrow> error + jsval" where
  "example_call f args =
     (if f = 0 then Inr (Bool True)
      else if f = 1 then Inr (Bool False)
      else if f = 2 then Inr (case args of [] \<Rightarrow> Undefined | v # rest \<Rightarrow> v)
      else if f = 3 then
        Inr (case args of Num n # rest \<Rightarrow> Bool (0 \<le> n) | _ \<Rightarrow> Bool False)
      else if f = 4 then Inr (Str ''fallback'')
      else Inl (Error ''thrown by the callee''))"

text \<open>
  The conversions of the example host are those of JavaScript on the values the
  examples use: \<^verbatim>\<open>undefined\<close>, \<^verbatim>\<open>null\<close>, booleans, strings, integers of magnitude below
  \<open>10^21\<close> (written in full, with no exponent) and, for \<^verbatim>\<open>String\<close>, objects that have
  neither a \<^verbatim>\<open>toString\<close> nor a \<^verbatim>\<open>valueOf\<close> of their own. On every other value the example
  host throws, so that no run on it says anything about such a value.
\<close>

definition json_escape :: "char \<Rightarrow> string" where
  "json_escape c =
     (let n = (of_char c :: nat) in
      if n = 34 then [CHR 0x5C, CHR 0x22]
      else if n = 92 then [CHR 0x5C, CHR 0x5C]
      else if n = 8 then [CHR 0x5C, CHR ''b'']
      else if n = 9 then [CHR 0x5C, CHR ''t'']
      else if n = 10 then [CHR 0x5C, CHR ''n'']
      else if n = 12 then [CHR 0x5C, CHR ''f'']
      else if n = 13 then [CHR 0x5C, CHR ''r'']
      else if n < 32 then
        [CHR 0x5C, CHR ''u'', CHR ''0'', CHR ''0'',
         ''0123456789abcdef'' ! (n div 16), ''0123456789abcdef'' ! (n mod 16)]
      else [c])"

definition json_quote :: "string \<Rightarrow> string" where
  "json_quote s = CHR 0x22 # concat (map json_escape s) @ [CHR 0x22]"

definition example_to_string :: "jsval \<Rightarrow> error + string" where
  "example_to_string v =
     (case v of
        Undefined \<Rightarrow> Inr ''undefined''
      | Null \<Rightarrow> Inr ''null''
      | Bool b \<Rightarrow> Inr (if b then ''true'' else ''false'')
      | Num n \<Rightarrow>
          if \<bar>n\<bar> < 1000000000000000000000 then Inr (show_int n)
          else Inl (Error ''outside the example host'')
      | Str s \<Rightarrow> Inr s
      | Obj a fs \<Rightarrow>
          if map_of fs ''toString'' = None \<and> map_of fs ''valueOf'' = None
          then Inr ''[object Object]''
          else Inl (Error ''outside the example host'')
      | _ \<Rightarrow> Inl (Error ''outside the example host''))"

definition example_json :: "jsval \<Rightarrow> error + string option" where
  "example_json v =
     (case v of
        Undefined \<Rightarrow> Inr None
      | Null \<Rightarrow> Inr (Some ''null'')
      | Bool b \<Rightarrow> Inr (Some (if b then ''true'' else ''false''))
      | Num n \<Rightarrow>
          if \<bar>n\<bar> < 1000000000000000000000 then Inr (Some (show_int n))
          else Inl (Error ''outside the example host'')
      | Str s \<Rightarrow> Inr (Some (json_quote s))
      | _ \<Rightarrow> Inl (Error ''outside the example host''))"

definition example_host :: host where
  "example_host =
     \<lparr>call_fn = example_call, inherited = (\<lambda>v k. Undefined),
      to_string = example_to_string, json_stringify = example_json\<rparr>"

section \<open>The cycle guard\<close>

text \<open>
  \<^verbatim>\<open>isCyclic\<close> (src/src/utils.ts) follows references, so its values live in a heap:
  the object at address \<open>a\<close> is the list \<open>h ! a\<close> of the properties that \<^verbatim>\<open>for ... in\<close>
  enumerates, in insertion order, and a property value is a primitive, a function or a
  reference \<open>GRef a\<close> to an object. An array is the object of its indices. A reference
  to no object of the heap, which JavaScript cannot build, reads as an object without
  properties.
\<close>

datatype gval =
    GUndefined | GNull | GBool bool | GNum int | GStr string | GFun nat | GRef nat

type_synonym heap = "(string \<times> gval) list list"

definition props_of :: "heap \<Rightarrow> nat \<Rightarrow> (string \<times> gval) list" where
  "props_of h a = (if a < length h then h ! a else [])"

text \<open>
  What \<^verbatim>\<open>for (const key in obj)\<close> visits, each key with the value \<^verbatim>\<open>obj[key]\<close>: the
  keys in the order of \<open>key_order\<close>.
\<close>

definition enumerate_props :: "heap \<Rightarrow> nat \<Rightarrow> (string \<times> gval) list" where
  "enumerate_props h a =
     map (\<lambda>k. (k, case map_of (props_of h a) k of Some v \<Rightarrow> v | None \<Rightarrow> GUndefined))
       (key_order (map fst (props_of h a)))"

text \<open>
  The record \<^verbatim>\<open>logCyclicError\<close> writes to \<^verbatim>\<open>console.error\<close>, without its time stamp and
  its \<^verbatim>\<open>objectType\<close>; \<open>console\<close> is what has been written so far. The set \<open>seen\<close> is
  the \<^verbatim>\<open>WeakSet\<close> that every recursive call shares.
\<close>

record diagnostic =
  diag_context :: string
  diag_path :: string

record guard_state =
  seen :: "nat set"
  console :: "diagnostic list"

definition logCyclicError :: "gval \<Rightarrow> string list \<Rightarrow> string \<Rightarrow> guard_state \<Rightarrow> guard_state" where
  "logCyclicError obj path ctxt st =
     st\<lparr>console := console st @ [\<lparr>diag_context = ctxt, diag_path = join '' -> '' path\<rparr>]\<rparr>"

text \<open>
  \<open>isCyclic_props\<close> is the \<^verbatim>\<open>for\<close> loop of \<^verbatim>\<open>isCyclic\<close> over the properties still to
  visit: it returns \<^verbatim>\<open>true\<close> at the first property whose recursive call does.
\<close>

function isCyclic :: "heap \<Rightarrow> gval \<Rightarrow> guard_state \<Rightarrow> string list \<Rightarrow> bool \<times> guard_state"
  and isCyclic_props ::
    "heap \<Rightarrow> (string \<times> gval) list \<Rightarrow> guard_state \<Rightarrow> string list \<Rightarrow> bool \<times> guard_state"
where
  "isCyclic h obj st path =
     (case obj of
        GRef a \<Rightarrow>
          if a \<in> seen st then (True, logCyclicError obj path ''Cycle detected'' st)
          else isCyclic_props h (enumerate_props h a) (st\<lparr>seen := insert a (seen st)\<rparr>) path
      | _ \<Rightarrow> (False, st))"
| "isCyclic_props h [] st path = (False, st)"
| "isCyclic_props h ((key, v) # rest) st path =
     (case isCyclic h v st (path @ [key]) of
        (True, st') \<Rightarrow> (True, st')
      | (False, st') \<Rightarrow> isCyclic_props h rest st' path)"
  by pat_completeness auto

text \<open>
  Termination: \<open>seen\<close> only grows, and every object entered for the first time is one
  object fewer of the heap to see.
\<close>

lemma seen_grows_dom:
  "isCyclic_isCyclic_props_dom (Inl (h, obj, st, path)) \<Longrightarrow>
     seen st \<subseteq> seen (snd (isCyclic h obj st path))"
  "isCyclic_isCyclic_props_dom (Inr (h, ps, st, path)) \<Longrightarrow>
     seen st \<subseteq> seen (snd (isCyclic_props h ps st path))"
proof (induct rule: isCyclic_isCyclic_props.pinduct)
  case (1 h obj st path)
  then show ?case
    by (cases obj) (auto simp: isCyclic.psimps logCyclicError_def)
next
  case (2 h st path)
  then show ?case by (simp add: isCyclic_props.psimps)
next
  case (3 h key v rest st path)
  then show ?case
    by (cases "isCyclic h v st (path @ [key])")
      (auto simp: isCyclic_props.psimps split: bool.splits)
qed

definition unseen :: "heap \<Rightarrow> guard_state \<Rightarrow> nat" where
  "unseen h st = card ({..<length h} - seen st)"

lemma unseen_mono: "seen st \<subseteq> seen st' \<Longrightarrow> unseen h st' \<le> unseen h st"
  unfolding unseen_def by (intro card_mono) auto

lemma unseen_insert:
  "a < length h \<Longrightarrow> a \<notin> seen st \<Longrightarrow> unseen h (st\<lparr>seen := insert a (seen st)\<rparr>) < unseen h st"
  unfolding unseen_def by (intro psubset_card_mono) auto

lemma enumerate_props_dangling: "\<not> a < length h \<Longrightarrow> enumerate_props h a = []"
  by (simp add: enumerate_props_def props_of_def key_order_def)

termination isCyclic
proof (relation "inv_image (less_than <*lex*> less_than)
    (\<lambda>x. case x of
       Inl (h, obj, st, path) \<Rightarrow> (unseen h st, 1::nat)
     | Inr (h, ps, st, path) \<Rightarrow> (unseen h st, if ps = [] then 0 else 2 + length ps))",
    goal_cases)
  case 1
  show ?case by (intro wf_inv_image wf_lex_prod wf_less_than)
next
  case (2 h obj st path a)
  then show ?case
    using unseen_insert [of a h st] enumerate_props_dangling [of a h]
    by (cases "a < length h") (auto simp: unseen_def)
next
  case (3 h key v rest st path)
  show ?case by simp
next
  case (4 h key v rest st path x y)
  then have "seen st \<subseteq> seen y"
    using seen_grows_dom(1) [of h v st "path @ [key]"] by (metis snd_conv)
  then have "unseen h y \<le> unseen h st" by (rule unseen_mono)
  then show ?case by auto
qed

declare isCyclic.simps [simp del]


text \<open>
  \<open>walk h v ks\<close> is the value \<^verbatim>\<open>v[k1][k2]...\<close> that the property names \<open>ks\<close> lead to,
  through objects only.
\<close>

fun walk :: "heap \<Rightarrow> gval \<Rightarrow> string list \<Rightarrow> gval option" where
  "walk h v [] = Some v"
| "walk h v (k # ks) =
     (case v of
        GRef a \<Rightarrow>
          (case map_of (enumerate_props h a) k of None \<Rightarrow> None | Some v' \<Rightarrow> walk h v' ks)
      | _ \<Rightarrow> None)"









section \<open>Loops that find no match\<close>

lemma example_host_inherited [simp]: "inherited example_host v k = Undefined"
  by (simp add: example_host_def)

lemma example_host_call [simp]: "call_fn example_host f args = example_call f args"
  by (simp add: example_host_def)

lemma example_host_to_string [simp]:
  "to_string example_host Undefined = Inr ''undefined''"
  "to_string example_host (Str s) = Inr s"
  "\<bar>n\<bar> < 1000000000000000000000 \<Longrightarrow> to_string example_host (Num n) = Inr (show_int n)"
  "map_of fs ''toString'' = None \<Longrightarrow> map_of fs ''valueOf'' = None \<Longrightarrow>
     to_string example_host (Obj a fs) = Inr ''[object Object]''"
  by (simp_all add: example_host_def example_to_string_def)

lemma example_host_json [simp]:
  "json_stringify example_host (Str s) = Inr (Some (json_quote s))"
  "\<bar>n\<bar> < 1000000000000000000000 \<Longrightarrow>
     json_stringify example_host (Num n) = Inr (Some (show_int n))"
  by (simp_all add: example_host_def example_json_def)

lemma get_prop_not_nullish: "get_prop h v k = Inr x \<Longrightarrow> v \<noteq> Undefined \<and> v \<noteq> Null"
  by (cases v) auto

lemma get_prop_defined: "get_prop h v k = Inr x \<Longrightarrow> \<exists>y. get_prop h v k' = Inr y"
  by (cases v) auto

lemma set_key_order: "set (key_order ks) = set ks"
  by (auto simp: key_order_def)

lemma run_loop_none:
  "\<forall>e\<in>set cs. is_match h (fst e) val = Inr False \<Longrightarrow> run_loop h val cs = Inr None"
  by (induction cs) auto

lemma array_loop_none:
  "\<forall>e\<in>set xs. array_entry_fails h val e \<Longrightarrow> array_loop h val xs = Inr None"
proof (induction xs)
  case Nil
  show ?case by simp
next
  case (Cons x xs)
  from Cons.prems have x: "array_entry_fails h val x" by simp
  then obtain m where m: "get_prop h x ''match'' = Inr m"
    by (auto simp: array_entry_fails_def split: sum.splits)
  then obtain hd where hd: "get_prop h x ''handler'' = Inr hd"
    using get_prop_defined by blast
  from x m obtain r where r: "call h m [val] = Inr r" "\<not> truthy r"
    by (auto simp: array_entry_fails_def split: sum.splits)
  from Cons show ?case by (simp add: m hd r)
qed

lemma object_entry_none:
  "object_entry_fails h val c \<Longrightarrow> object_entry h val c = Inr None"
  by (auto simp: object_entry_fails_def object_entry_def split: sum.splits)

lemma object_loop_none:
  "\<forall>k\<in>set ks. \<exists>c. get_prop h cs k = Inr c \<and> object_entry_fails h val c \<Longrightarrow>
   object_loop h val cs ks = Inr None"
  by (induction ks) (auto simp: object_entry_none)

lemma object_fields_fail:
  assumes "\<forall>e\<in>set fs. object_entry_fails h val (snd e)"
  shows "\<forall>k\<in>set (key_order (map fst fs)).
           \<exists>c. get_prop h (Obj a fs) k = Inr c \<and> object_entry_fails h val c"
proof
  fix k assume "k \<in> set (key_order (map fst fs))"
  then have "k \<in> fst ` set fs" by (simp add: set_key_order)
  then obtain c where c: "map_of fs k = Some c"
    by (metis map_of_eq_None_iff not_Some_eq)
  then have "(k, c) \<in> set fs" by (rule map_of_SomeD)
  with assms have "object_entry_fails h val c" by fastforce
  with c show "\<exists>c. get_prop h (Obj a fs) k = Inr c \<and> object_entry_fails h val c" by simp
qed

lemma object_based_no_match:
  assumes "to_string h val = Inr key"
    and "get_prop h (Obj a fs) key = Inr Undefined"
    and "\<forall>e\<in>set fs. object_entry_fails h val (snd e)"
  shows "object_based h val (Obj a fs) d = default_or_throw h d val"
proof -
  have "object_loop h val (Obj a fs) (key_order (map fst fs)) = Inr None"
    using object_fields_fail [OF assms(3)] by (rule object_loop_none)
  with assms(1,2) show ?thesis by (simp add: object_based_def)
qed

lemma not_object_not_array: "\<not> typeof_object v \<Longrightarrow> \<not> is_array v"
  by (cases v) auto

section \<open>Loops that stop at the first match\<close>

lemma array_loop_skip:
  "\<forall>e\<in>set pre. array_entry_fails h val e \<Longrightarrow>
   array_loop h val (pre @ rest) = array_loop h val rest"
proof (induction pre)
  case Nil
  show ?case by simp
next
  case (Cons x pre)
  from Cons.prems have x: "array_entry_fails h val x" by simp
  then obtain m where m: "get_prop h x ''match'' = Inr m"
    by (auto simp: array_entry_fails_def split: sum.splits)
  then obtain hd where hd: "get_prop h x ''handler'' = Inr hd"
    using get_prop_defined by blast
  from x m obtain r where r: "call h m [val] = Inr r" "\<not> truthy r"
    by (auto simp: array_entry_fails_def split: sum.splits)
  from Cons show ?case by (simp add: m hd r)
qed

lemma array_loop_match:
  "array_entry_matches h val entry handler \<Longrightarrow>
   array_loop h val (entry # post) = map_sum id Some (resolve h handler val)"
  by (auto simp: array_entry_matches_def split: sum.splits)

lemma array_loop_not_callable:
  "get_prop h entry ''match'' = Inr m \<Longrightarrow> \<not> is_function m \<Longrightarrow>
   array_loop h val (entry # post) = Inl TypeError"
proof -
  assume m: "get_prop h entry ''match'' = Inr m" and nf: "\<not> is_function m"
  from m obtain hd where hd: "get_prop h entry ''handler'' = Inr hd"
    using get_prop_defined by blast
  from nf have "call h m [val] = Inl TypeError" by (cases m) auto
  with m hd show ?thesis by simp
qed

lemma array_based_result:
  "array_loop h val xs = map_sum id Some r \<Longrightarrow> array_based h val (Arr a xs) d = r"
  by (cases r) (simp_all add: array_based_def)

lemma object_loop_skip:
  "\<forall>k\<in>set kpre. \<exists>c. get_prop h cs k = Inr c \<and> object_entry_fails h val c \<Longrightarrow>
   object_loop h val cs (kpre @ rest) = object_loop h val cs rest"
  by (induction kpre) (auto simp: object_entry_none)

lemma object_loop_match:
  "get_prop h cs k = Inr c \<Longrightarrow> object_entry_matches h val c handler \<Longrightarrow>
   object_loop h val cs (k # rest) = map_sum id Some (resolve h handler val)"
  by (cases "resolve h handler val")
    (auto simp: object_entry_matches_def object_entry_def split: sum.splits)

lemma key_order_plain: "\<forall>k\<in>set ks. \<not> is_array_index k \<Longrightarrow> key_order ks = ks"
proof -
  assume a: "\<forall>k\<in>set ks. \<not> is_array_index k"
  then have "filter is_array_index ks = []" by (simp add: filter_empty_conv)
  moreover from a have "filter (\<lambda>k. \<not> is_array_index k) ks = ks" by simp
  ultimately show ?thesis by (simp add: key_order_def)
qed

section \<open>The builder's terminal calls\<close>

text \<open>
  Claim C9. \<^verbatim>\<open>exhaustive()\<close> is \<^verbatim>\<open>run()\<close> at the value level: on every builder state
  (entries, default handler, subject) it gives the result \<^verbatim>\<open>run()\<close> gives, the thrown
  "No matching case" error included, and leaves the same state behind.
\<close>

theorem exhaustive_is_run: "exhaustive h b = run h b"
  by (simp add: exhaustive_def)

text \<open>
  Claim C8. \<^verbatim>\<open>run()\<close> is repeatable: it leaves the accumulated entries and the default
  handler as they were, so a second \<^verbatim>\<open>run()\<close> with no \<^verbatim>\<open>case()\<close> or \<^verbatim>\<open>default()\<close> in
  between gives the result of the first (the functions of the host are pure).
\<close>

theorem run_repeatable:
  "snd (run h b) = b \<and> fst (run h (snd (run h b))) = fst (run h b)"
  by (simp add: run_def)

section \<open>Exhaustion\<close>

text \<open>
  What the dispatcher does once its entries are exhausted, that is, once every entry has
  been tested and every test has come out falsy. Without a default handler it throws
  \<^verbatim>\<open>No matching case for value: \<close> followed by the JSON text of the subject (in the
  discriminated-union mode \<^verbatim>\<open>No matching case for <key>: <value>\<close>); with a default
  handler its outcome is that of \<^verbatim>\<open>defaultHandler(subject)\<close>.
\<close>

lemma exhaustion_without_default:
  "((\<forall>e\<in>set (cases b). is_match h (fst e) (subject b) = Inr False)
      \<and> \<not> truthy (defaultFn b) \<and> json_stringify h (subject b) = Inr t \<longrightarrow>
      fst (run h b) = Inl (Error (''No matching case for value: '' @ template_text t)))
   \<and> ((\<forall>e\<in>set xs. array_entry_fails h val e) \<and> \<not> truthy d
        \<and> json_stringify h val = Inr t \<longrightarrow>
      switchCase h val (Arr a xs) d d' =
        Inl (Error (''No matching case for value: '' @ template_text t)))
   \<and> (to_string h val = Inr k \<and> get_prop h (Obj a fs) k = Inr Undefined
        \<and> (\<forall>e\<in>set fs. object_entry_fails h val (snd e)) \<and> \<not> truthy d
        \<and> json_stringify h val = Inr t \<longrightarrow>
      switchCase h val (Obj a fs) d d' =
        Inl (Error (''No matching case for value: '' @ template_text t)))
   \<and> (key \<noteq> Undefined \<and> \<not> typeof_object key \<and> to_string h key = Inr name
        \<and> get_prop h val name = Inr field \<and> to_string h field = Inr shown
        \<and> get_prop h cs shown = Inr Undefined \<and> \<not> truthy d' \<longrightarrow>
      switchCase h val key cs d' =
        Inl (Error (''No matching case for '' @ name @ '': '' @ shown)))"
proof (intro conjI impI)
  assume "(\<forall>e\<in>set (cases b). is_match h (fst e) (subject b) = Inr False)
      \<and> \<not> truthy (defaultFn b) \<and> json_stringify h (subject b) = Inr t"
  then show "fst (run h b) =
      Inl (Error (''No matching case for value: '' @ template_text t))"
    by (simp add: run_def run_loop_none default_or_throw_def no_match_error_def)
next
  assume "(\<forall>e\<in>set xs. array_entry_fails h val e) \<and> \<not> truthy d
      \<and> json_stringify h val = Inr t"
  then show "switchCase h val (Arr a xs) d d' =
      Inl (Error (''No matching case for value: '' @ template_text t))"
    by (simp add: switchCase_def array_based_def array_loop_none default_or_throw_def
        no_match_error_def)
next
  assume "to_string h val = Inr k \<and> get_prop h (Obj a fs) k = Inr Undefined
      \<and> (\<forall>e\<in>set fs. object_entry_fails h val (snd e)) \<and> \<not> truthy d
      \<and> json_stringify h val = Inr t"
  then show "switchCase h val (Obj a fs) d d' =
      Inl (Error (''No matching case for value: '' @ template_text t))"
    by (simp add: switchCase_def object_based_no_match default_or_throw_def no_match_error_def)
next
  assume *: "key \<noteq> Undefined \<and> \<not> typeof_object key \<and> to_string h key = Inr name
      \<and> get_prop h val name = Inr field \<and> to_string h field = Inr shown
      \<and> get_prop h cs shown = Inr Undefined \<and> \<not> truthy d'"
  then have "\<not> is_array key" by (simp add: not_object_not_array)
  moreover from * have "val \<noteq> Undefined \<and> val \<noteq> Null"
    using get_prop_not_nullish by blast
  ultimately show "switchCase h val key cs d' =
      Inl (Error (''No matching case for '' @ name @ '': '' @ shown))"
    using * by (simp add: switchCase_def discriminated_def)
qed

lemma exhaustion_with_default:
  "((\<forall>e\<in>set (cases b). is_match h (fst e) (subject b) = Inr False)
      \<and> defaultFn b = Fun f \<longrightarrow>
      fst (run h b) = call_fn h f [subject b])
   \<and> ((\<forall>e\<in>set xs. array_entry_fails h val e) \<longrightarrow>
      switchCase h val (Arr a xs) (Fun f) d' = map_sum id Result (call_fn h f [val]))
   \<and> (to_string h val = Inr k \<and> get_prop h (Obj a fs) k = Inr Undefined
        \<and> (\<forall>e\<in>set fs. object_entry_fails h val (snd e)) \<longrightarrow>
      switchCase h val (Obj a fs) (Fun f) d' = map_sum id Result (call_fn h f [val]))
   \<and> (key \<noteq> Undefined \<and> \<not> typeof_object key \<and> to_string h key = Inr name
        \<and> get_prop h val name = Inr field \<and> to_string h field = Inr shown
        \<and> get_prop h cs shown = Inr Undefined \<longrightarrow>
      switchCase h val key cs (Fun f) = map_sum id Result (call_fn h f [val]))"
proof (intro conjI impI)
  assume "(\<forall>e\<in>set (cases b). is_match h (fst e) (subject b) = Inr False)
      \<and> defaultFn b = Fun f"
  then show "fst (run h b) = call_fn h f [subject b]"
    by (simp add: run_def run_loop_none default_or_throw_def)
next
  assume "\<forall>e\<in>set xs. array_entry_fails h val e"
  then show "switchCase h val (Arr a xs) (Fun f) d' = map_sum id Result (call_fn h f [val])"
    by (simp add: switchCase_def array_based_def array_loop_none default_or_throw_def)
next
  assume "to_string h val = Inr k \<and> get_prop h (Obj a fs) k = Inr Undefined
      \<and> (\<forall>e\<in>set fs. object_entry_fails h val (snd e))"
  then show "switchCase h val (Obj a fs) (Fun f) d' = map_sum id Result (call_fn h f [val])"
    by (simp add: switchCase_def object_based_no_match default_or_throw_def)
next
  assume *: "key \<noteq> Undefined \<and> \<not> typeof_object key \<and> to_string h key = Inr name
      \<and> get_prop h val name = Inr field \<and> to_string h field = Inr shown
      \<and> get_prop h cs shown = Inr Undefined"
  then have "\<not> is_array key" by (simp add: not_object_not_array)
  moreover from * have "val \<noteq> Undefined \<and> val \<noteq> Null"
    using get_prop_not_nullish by blast
  ultimately show "switchCase h val key cs (Fun f) = map_sum id Result (call_fn h f [val])"
    using * by (simp add: switchCase_def discriminated_def)
qed

section \<open>Entries the scan cannot test\<close>

text \<open>
  The object-based scan (lines 122 to 131) passes over an entry that is a function and
  takes every other entry for a \<^verbatim>\<open>{match, handler}\<close> pair. A literal map holds results,
  not pairs, so once the key of the subject is not found the scan reads \<^verbatim>\<open>c.match\<close> of
  each result: of \<^verbatim>\<open>null\<close> or \<^verbatim>\<open>undefined\<close> that read throws a TypeError, and the entries
  are never exhausted. (Of a string result the read finds the inherited
  \<^verbatim>\<open>String.prototype.match\<close>, which the scan then calls with the subject.)
\<close>

text \<open>
  Claim C6 says that a call in which no case matches and no default handler is supplied
  throws \<^verbatim>\<open>No matching case for value: <JSON of subject>\<close>. The literal map
  \<^verbatim>\<open>{apple: null}\<close> has no case for \<^verbatim>\<open>'pear'\<close>, and the call throws a TypeError instead;
  with the result \<^verbatim>\<open>'This is an apple'\<close> in the place of \<^verbatim>\<open>null\<close> it throws the error the
  claim names.
\<close>

theorem null_entry_without_default:
  "switchCase example_host (Str ''pear'') (Obj 1 [(''apple'', Null)]) Undefined Undefined
     = Inl TypeError
   \<and> switchCase example_host (Str ''pear'') (Obj 1 [(''apple'', Str ''This is an apple'')])
        Undefined Undefined
     = Inl (Error (''No matching case for value: '' @ [CHR 0x22] @ ''pear'' @ [CHR 0x22]))"
  by (simp add: switchCase_def object_based_def object_entry_def key_order_def
      is_array_index_def is_digit_def is_match_def default_or_throw_def no_match_error_def
      template_text_def json_quote_def json_escape_def)

text \<open>
  Claim C7 says that a call in which no case matches and a default handler is supplied
  throws nothing and returns \<^verbatim>\<open>defaultHandler(subject)\<close>. With the literal map
  \<^verbatim>\<open>{apple: null}\<close>, the subject \<^verbatim>\<open>'pear'\<close> and the default handler \<^verbatim>\<open>() => 'fallback'\<close>
  the call throws a TypeError and the default handler is not called; with the result
  \<^verbatim>\<open>'This is an apple'\<close> in the place of \<^verbatim>\<open>null\<close> it returns \<^verbatim>\<open>'fallback'\<close>.
\<close>

theorem null_entry_with_default:
  "switchCase example_host (Str ''pear'') (Obj 1 [(''apple'', Null)]) (Fun 4) Undefined
     = Inl TypeError
   \<and> switchCase example_host (Str ''pear'') (Obj 1 [(''apple'', Str ''This is an apple'')])
        (Fun 4) Undefined
     = Inr (Result (Str ''fallback''))"
  by (simp add: switchCase_def object_based_def object_entry_def key_order_def
      is_array_index_def is_digit_def is_match_def default_or_throw_def example_call_def)

section \<open>Which mode a call runs in\<close>




section \<open>The literal fast path\<close>

text \<open>
  Claim C2 says that an entry found under the stringified subject is resolved as a
  handler, a predicate pair by calling its \<^verbatim>\<open>.handler\<close> with the subject. The fast path
  does not look inside the entry: the pair \<^verbatim>\<open>{match, handler}\<close> stored under \<^verbatim>\<open>x\<close> is
  returned as it is, and its handler \<^verbatim>\<open>v => v\<close> is never called.
\<close>

theorem fast_path_pair_counterexample:
  "switchCase example_host (Str ''x'')
      (Obj 1 [(''x'', Obj 2 [(''match'', Fun 0), (''handler'', Fun 2)])]) Undefined Undefined
     = Inr (Result (Obj 2 [(''match'', Fun 0), (''handler'', Fun 2)]))
   \<and> call example_host (Fun 2) [Str ''x''] = Inr (Str ''x'')
   \<and> switchCase example_host (Str ''x'')
      (Obj 1 [(''x'', Obj 2 [(''match'', Fun 0), (''handler'', Fun 2)])]) Undefined Undefined
     \<noteq> map_sum id Result (call example_host (Fun 2) [Str ''x''])"
  by (simp add: switchCase_def object_based_def example_call_def)

text \<open>
  Claim C2, amended. In the object-based mode, an entry stored under the stringified
  subject (the string \<^verbatim>\<open>String(value)\<close> returns) that is not \<^verbatim>\<open>undefined\<close> decides the
  call, whatever the other entries are (predicate entries that would match included): a
  function entry is called with no arguments, any other entry is returned as it is
  stored. In particular, \<^verbatim>\<open>String(404)\<close> being \<^verbatim>\<open>'404'\<close>,
  \<^verbatim>\<open>switchCase(404, {200: 'OK', 404: 'Not Found', 500: 'Err'})\<close> is \<^verbatim>\<open>'Not Found'\<close>.
\<close>

theorem literal_fast_path:
  "(to_string h val = Inr key \<and> map_of fs key = Some entry \<and> entry \<noteq> Undefined \<longrightarrow>
      switchCase h val (Obj a fs) d d' =
        map_sum id Result (if is_function entry then call h entry [] else Inr entry))
   \<and> (to_string h (Num 404) = Inr ''404'' \<longrightarrow>
      switchCase h (Num 404)
        (Obj a [(''200'', Str ''OK''), (''404'', Str ''Not Found''), (''500'', Str ''Err'')])
        d d'
      = Inr (Result (Str ''Not Found'')))"
  by (simp add: switchCase_def object_based_def)

text \<open>
  C2 on two maps that begin with a predicate entry accepting every subject: the entry
  under the subject's key wins, a function called without arguments and a literal
  returned; and on the map of the status codes.
\<close>

theorem literal_fast_path_witness:
  "switchCase example_host (Str ''apple'')
      (Obj 1 [(''always'', Obj 2 [(''match'', Fun 0), (''handler'', Str ''predicate'')]),
              (''apple'', Fun 4)]) Undefined Undefined
     = Inr (Result (Str ''fallback''))
   \<and> switchCase example_host (Num 2)
      (Obj 1 [(''always'', Obj 2 [(''match'', Fun 0), (''handler'', Str ''predicate'')]),
              (''2'', Str ''Two'')]) Undefined Undefined
     = Inr (Result (Str ''Two''))
   \<and> switchCase example_host (Num 404)
      (Obj 1 [(''200'', Str ''OK''), (''404'', Str ''Not Found''), (''500'', Str ''Err'')])
      Undefined Undefined
     = Inr (Result (Str ''Not Found''))"
proof -
  let ?p = "Obj 2 [(''match'', Fun 0), (''handler'', Str ''predicate'')]"
  note t = literal_fast_path [where h = example_host and a = 1 and d = Undefined
      and d' = Undefined]
  have 1: "to_string example_host (Str ''apple'') = Inr ''apple''
      \<and> map_of [(''always'', ?p), (''apple'', Fun 4)] ''apple'' = Some (Fun 4)
      \<and> Fun 4 \<noteq> Undefined"
    by simp
  have 2: "to_string example_host (Num 2) = Inr ''2''
      \<and> map_of [(''always'', ?p), (''2'', Str ''Two'')] ''2'' = Some (Str ''Two'')
      \<and> Str ''Two'' \<noteq> Undefined"
    by (simp add: show_int_def show_nat.simps)
  have 3: "to_string example_host (Num 404) = Inr ''404''"
    by (simp add: show_int_def show_nat.simps)
  from t [where val = "Str ''apple''" and key = "''apple''"
      and fs = "[(''always'', ?p), (''apple'', Fun 4)]" and entry = "Fun 4",
      THEN conjunct1, THEN mp, OF 1]
  have a: "switchCase example_host (Str ''apple'')
      (Obj 1 [(''always'', ?p), (''apple'', Fun 4)]) Undefined Undefined
     = Inr (Result (Str ''fallback''))"
    by (simp add: example_call_def)
  from t [where val = "Num 2" and key = "''2''"
      and fs = "[(''always'', ?p), (''2'', Str ''Two'')]" and entry = "Str ''Two''",
      THEN conjunct1, THEN mp, OF 2]
  have b: "switchCase example_host (Num 2)
      (Obj 1 [(''always'', ?p), (''2'', Str ''Two'')]) Undefined Undefined
     = Inr (Result (Str ''Two''))"
    by simp
  from t [THEN conjunct2, THEN mp, OF 3]
  have c: "switchCase example_host (Num 404)
      (Obj 1 [(''200'', Str ''OK''), (''404'', Str ''Not Found''), (''500'', Str ''Err'')])
      Undefined Undefined
     = Inr (Result (Str ''Not Found''))" .
  from a b c show ?thesis by blast
qed

section \<open>The array-based mode\<close>

text \<open>
  Claim C3 says that in a Predicate sequence a \<^verbatim>\<open>match\<close> that is not callable is
  compared with the subject by literal equality. The array-based loop calls \<^verbatim>\<open>match\<close>
  whatever it is: with \<^verbatim>\<open>match: 1\<close> and the subject \<^verbatim>\<open>1\<close> the call throws a TypeError,
  although the equality test holds and the builder, given the same entry, returns
  \<^verbatim>\<open>'one'\<close>.
\<close>

theorem sequence_literal_match_counterexample:
  "switchCase example_host (Num 1)
      (Arr 0 [Obj 1 [(''match'', Num 1), (''handler'', Str ''one'')]]) Undefined Undefined
     = Inl TypeError
   \<and> is_match example_host (Num 1) (Num 1) = Inr True
   \<and> fst (run example_host (builder_case (Num 1) (Str ''one'') (new_builder (Num 1))))
     = Inr (Str ''one'')"
  by (simp add: switchCase_def array_based_def is_match_def run_def builder_case_def
      new_builder_def resolve_def)

text \<open>
  Claim C3, amended. In the array-based mode the entries are tried in the given order
  and each entry's \<^verbatim>\<open>match\<close> is called with the subject. The first entry whose call
  is truthy supplies the result: its handler called with the subject when it is
  callable, returned as it is otherwise. An entry whose \<^verbatim>\<open>match\<close> is not callable,
  reached before any match, makes the call throw a TypeError.
\<close>

theorem sequence_match_rule:
  "((\<forall>e\<in>set pre. array_entry_fails h val e)
      \<and> get_prop h entry ''match'' = Inr m \<and> call h m [val] = Inr r \<and> truthy r
      \<and> get_prop h entry ''handler'' = Inr handler \<longrightarrow>
      switchCase h val (Arr a (pre @ entry # post)) d d' =
        map_sum id Result (if is_function handler then call h handler [val] else Inr handler))
   \<and> ((\<forall>e\<in>set pre. array_entry_fails h val e)
      \<and> get_prop h entry ''match'' = Inr m \<and> \<not> is_function m \<longrightarrow>
      switchCase h val (Arr a (pre @ entry # post)) d d' = Inl TypeError)"
proof (intro conjI impI)
  assume *: "(\<forall>e\<in>set pre. array_entry_fails h val e)
      \<and> get_prop h entry ''match'' = Inr m \<and> call h m [val] = Inr r \<and> truthy r
      \<and> get_prop h entry ''handler'' = Inr handler"
  then have "array_entry_matches h val entry handler"
    by (simp add: array_entry_matches_def)
  moreover from * have "array_loop h val (pre @ entry # post) = array_loop h val (entry # post)"
    by (intro array_loop_skip) simp
  ultimately have "array_loop h val (pre @ entry # post)
      = map_sum id Some (resolve h handler val)"
    by (simp only: array_loop_match)
  then have "array_based h val (Arr a (pre @ entry # post)) d = resolve h handler val"
    by (rule array_based_result)
  then show "switchCase h val (Arr a (pre @ entry # post)) d d' =
      map_sum id Result (if is_function handler then call h handler [val] else Inr handler)"
    by (simp add: switchCase_def resolve_def)
next
  assume *: "(\<forall>e\<in>set pre. array_entry_fails h val e)
      \<and> get_prop h entry ''match'' = Inr m \<and> \<not> is_function m"
  then have "array_loop h val (pre @ entry # post) = array_loop h val (entry # post)"
    by (intro array_loop_skip) simp
  moreover have "array_loop h val (entry # post) = Inl TypeError"
  proof (rule array_loop_not_callable)
    from * show "get_prop h entry ''match'' = Inr m" by simp
    from * show "\<not> is_function m" by simp
  qed
  ultimately have "array_loop h val (pre @ entry # post) = Inl TypeError"
    by simp
  then show "switchCase h val (Arr a (pre @ entry # post)) d d' = Inl TypeError"
    by (simp add: switchCase_def array_based_def)
qed

text \<open>
  C3 on two sequences: the second entry is the first whose \<^verbatim>\<open>match\<close> accepts \<open>15\<close> and its
  handler \<^verbatim>\<open>v => v\<close> is called with the subject; and a sequence whose second entry has
  the literal \<^verbatim>\<open>match: 1\<close>.
\<close>

theorem sequence_match_rule_witness:
  "switchCase example_host (Num 15)
      (Arr 1 [Obj 2 [(''match'', Fun 1), (''handler'', Str ''Child'')],
              Obj 3 [(''match'', Fun 3), (''handler'', Fun 2)],
              Obj 4 [(''match'', Fun 0), (''handler'', Str ''Adult'')]]) Undefined Undefined
     = Inr (Result (Num 15))
   \<and> switchCase example_host (Num 1)
      (Arr 1 [Obj 2 [(''match'', Fun 1), (''handler'', Str ''Child'')],
              Obj 3 [(''match'', Num 1), (''handler'', Str ''one'')]]) Undefined Undefined
     = Inl TypeError"
proof -
  let ?e0 = "Obj 2 [(''match'', Fun 1), (''handler'', Str ''Child'')]"
  let ?e1 = "Obj 3 [(''match'', Fun 3), (''handler'', Fun 2)]"
  let ?e2 = "Obj 4 [(''match'', Fun 0), (''handler'', Str ''Adult'')]"
  let ?e3 = "Obj 3 [(''match'', Num 1), (''handler'', Str ''one'')]"
  note t = sequence_match_rule [where h = example_host and pre = "[?e0]" and a = 1
      and d = Undefined and d' = Undefined]
  have 1: "(\<forall>e\<in>set [?e0]. array_entry_fails example_host (Num 15) e)
      \<and> get_prop example_host ?e1 ''match'' = Inr (Fun 3)
      \<and> call example_host (Fun 3) [Num 15] = Inr (Bool True) \<and> truthy (Bool True)
      \<and> get_prop example_host ?e1 ''handler'' = Inr (Fun 2)"
    by (simp add: array_entry_fails_def example_call_def)
  have 2: "(\<forall>e\<in>set [?e0]. array_entry_fails example_host (Num 1) e)
      \<and> get_prop example_host ?e3 ''match'' = Inr (Num 1) \<and> \<not> is_function (Num 1)"
    by (simp add: array_entry_fails_def example_call_def)
  from t [where val = "Num 15" and entry = ?e1 and m = "Fun 3" and r = "Bool True"
      and handler = "Fun 2" and post = "[?e2]", THEN conjunct1, THEN mp, OF 1]
  have a: "switchCase example_host (Num 15) (Arr 1 [?e0, ?e1, ?e2]) Undefined Undefined
      = Inr (Result (Num 15))"
    by (simp add: example_call_def)
  from t [where val = "Num 1" and entry = ?e3 and m = "Num 1" and post = "[]",
      THEN conjunct2, THEN mp, OF 2]
  have b: "switchCase example_host (Num 1) (Arr 1 [?e0, ?e3]) Undefined Undefined
      = Inl TypeError"
    by simp
  from a b show ?thesis by blast
qed

section \<open>First match wins\<close>

text \<open>
  Claim C5 says that of two matching entries of a Predicate map the earlier one in
  insertion order supplies the result. Two things stand against it. An entry stored
  under the stringified subject is taken by the literal fast path before any predicate
  is tried (first call: the pair under \<^verbatim>\<open>x\<close> is returned, not \<^verbatim>\<open>'A'\<close>). And the scan
  follows \<^verbatim>\<open>Object.keys\<close>, which lists the label \<^verbatim>\<open>1\<close> before the label \<^verbatim>\<open>b\<close> that
  was inserted first (second call: the later entry wins).
\<close>

theorem first_match_counterexample:
  "object_entry_matches example_host (Str ''x'')
      (Obj 2 [(''match'', Fun 0), (''handler'', Str ''A'')]) (Str ''A'')
   \<and> object_entry_matches example_host (Str ''x'')
      (Obj 3 [(''match'', Fun 0), (''handler'', Str ''X'')]) (Str ''X'')
   \<and> switchCase example_host (Str ''x'')
      (Obj 1 [(''a'', Obj 2 [(''match'', Fun 0), (''handler'', Str ''A'')]),
              (''x'', Obj 3 [(''match'', Fun 0), (''handler'', Str ''X'')])])
      Undefined Undefined
     = Inr (Result (Obj 3 [(''match'', Fun 0), (''handler'', Str ''X'')]))
   \<and> switchCase example_host (Str ''z'')
      (Obj 1 [(''b'', Obj 2 [(''match'', Fun 0), (''handler'', Str ''A'')]),
              (''1'', Obj 3 [(''match'', Fun 0), (''handler'', Str ''X'')])])
      Undefined Undefined
     = Inr (Result (Str ''X''))"
  by (simp add: switchCase_def object_based_def object_entry_matches_def is_match_def
      example_call_def key_order_def is_array_index_def is_digit_def
      parse_int_def object_entry_def resolve_def)

text \<open>
  Claim C5, amended. In a Predicate sequence, and in a Predicate map in which nothing is
  found under the stringified subject (the string \<^verbatim>\<open>String(value)\<close> returns), the
  result is resolved from the first entry in
  iteration order whose match succeeds, so that of two matching entries the earlier
  shadows the later. The iteration order of a sequence is the given order; that of a map
  is the order of \<^verbatim>\<open>Object.keys\<close>, which is the insertion order when no label is an array
  index.
\<close>

theorem first_match_wins:
  "((\<forall>e\<in>set pre. array_entry_fails h val e)
      \<and> array_entry_matches h val ea handlerA \<and> array_entry_matches h val eb handlerB \<longrightarrow>
      switchCase h val (Arr a (pre @ ea # mid @ eb # post)) d d' =
        map_sum id Result (resolve h handlerA val))
   \<and> (to_string h val = Inr key \<and> get_prop h (Obj a fs) key = Inr Undefined
      \<and> key_order (map fst fs) = kpre @ ka # kmid @ kb # kpost
      \<and> (\<forall>k\<in>set kpre. \<exists>c. map_of fs k = Some c \<and> object_entry_fails h val c)
      \<and> map_of fs ka = Some ca \<and> object_entry_matches h val ca handlerA
      \<and> map_of fs kb = Some cb \<and> object_entry_matches h val cb handlerB \<longrightarrow>
      switchCase h val (Obj a fs) d d' = map_sum id Result (resolve h handlerA val))
   \<and> ((\<forall>k\<in>set ks. \<not> is_array_index k) \<longrightarrow> key_order ks = ks)"
proof (intro conjI impI)
  assume *: "(\<forall>e\<in>set pre. array_entry_fails h val e)
      \<and> array_entry_matches h val ea handlerA \<and> array_entry_matches h val eb handlerB"
  then have "array_loop h val (pre @ ea # mid @ eb # post)
      = array_loop h val (ea # mid @ eb # post)"
    by (intro array_loop_skip) simp
  moreover from * have "array_loop h val (ea # mid @ eb # post)
      = map_sum id Some (resolve h handlerA val)"
    by (intro array_loop_match) simp
  ultimately have "array_loop h val (pre @ ea # mid @ eb # post)
      = map_sum id Some (resolve h handlerA val)"
    by simp
  then have "array_based h val (Arr a (pre @ ea # mid @ eb # post)) d = resolve h handlerA val"
    by (rule array_based_result)
  then show "switchCase h val (Arr a (pre @ ea # mid @ eb # post)) d d' =
      map_sum id Result (resolve h handlerA val)"
    by (simp add: switchCase_def)
next
  assume *: "to_string h val = Inr key \<and> get_prop h (Obj a fs) key = Inr Undefined
      \<and> key_order (map fst fs) = kpre @ ka # kmid @ kb # kpost
      \<and> (\<forall>k\<in>set kpre. \<exists>c. map_of fs k = Some c \<and> object_entry_fails h val c)
      \<and> map_of fs ka = Some ca \<and> object_entry_matches h val ca handlerA
      \<and> map_of fs kb = Some cb \<and> object_entry_matches h val cb handlerB"
  then have pre: "\<forall>k\<in>set kpre. \<exists>c. get_prop h (Obj a fs) k = Inr c \<and> object_entry_fails h val c"
    by fastforce
  from * have ka: "get_prop h (Obj a fs) ka = Inr ca" by simp
  have "object_loop h val (Obj a fs) (kpre @ ka # kmid @ kb # kpost)
      = map_sum id Some (resolve h handlerA val)"
    using * object_loop_skip [OF pre, of "ka # kmid @ kb # kpost"]
      object_loop_match [OF ka, of val handlerA "kmid @ kb # kpost"]
    by (simp only:)
  with * show "switchCase h val (Obj a fs) d d' = map_sum id Result (resolve h handlerA val)"
    by (cases "resolve h handlerA val") (simp_all add: switchCase_def object_based_def)
next
  assume "\<forall>k\<in>set ks. \<not> is_array_index k"
  then show "key_order ks = ks" by (rule key_order_plain)
qed

text \<open>
  C5 on a sequence and on a map in which a broad entry stands before a narrow one that
  matches too: the broad one supplies the result.
\<close>

theorem first_match_wins_witness:
  "switchCase example_host (Num 30)
      (Arr 1 [Obj 2 [(''match'', Fun 1), (''handler'', Str ''Child'')],
              Obj 3 [(''match'', Fun 3), (''handler'', Str ''Broad'')],
              Obj 4 [(''match'', Fun 0), (''handler'', Str ''Narrow'')]]) Undefined Undefined
     = Inr (Result (Str ''Broad''))
   \<and> switchCase example_host (Num 30)
      (Obj 1 [(''isChild'', Obj 2 [(''match'', Fun 1), (''handler'', Str ''Child'')]),
              (''isBroad'', Obj 3 [(''match'', Fun 3), (''handler'', Str ''Broad'')]),
              (''isNarrow'', Obj 4 [(''match'', Num 30), (''handler'', Str ''Narrow'')])])
      Undefined Undefined
     = Inr (Result (Str ''Broad''))
   \<and> key_order [''isChild'', ''isBroad'', ''isNarrow''] = [''isChild'', ''isBroad'', ''isNarrow'']"
proof -
  let ?e0 = "Obj 2 [(''match'', Fun 1), (''handler'', Str ''Child'')]"
  let ?e1 = "Obj 3 [(''match'', Fun 3), (''handler'', Str ''Broad'')]"
  let ?e2 = "Obj 4 [(''match'', Fun 0), (''handler'', Str ''Narrow'')]"
  let ?e3 = "Obj 4 [(''match'', Num 30), (''handler'', Str ''Narrow'')]"
  let ?fs = "[(''isChild'', ?e0), (''isBroad'', ?e1), (''isNarrow'', ?e3)]"
  let ?ks = "[''isChild'', ''isBroad'', ''isNarrow'']"
  note t = first_match_wins [where h = example_host and val = "Num 30" and a = 1
      and d = Undefined and d' = Undefined and handlerA = "Str ''Broad''"
      and handlerB = "Str ''Narrow''"]
  have 3: "\<forall>k\<in>set ?ks. \<not> is_array_index k"
    by (simp add: is_array_index_def is_digit_def)
  from t [where ks = ?ks, THEN conjunct2, THEN conjunct2, THEN mp, OF 3]
  have c: "key_order ?ks = ?ks" .
  have 1: "(\<forall>e\<in>set [?e0]. array_entry_fails example_host (Num 30) e)
      \<and> array_entry_matches example_host (Num 30) ?e1 (Str ''Broad'')
      \<and> array_entry_matches example_host (Num 30) ?e2 (Str ''Narrow'')"
    by (simp add: array_entry_fails_def array_entry_matches_def
        example_call_def)
  have 2: "to_string example_host (Num 30) = Inr ''30''
      \<and> get_prop example_host (Obj 1 ?fs) ''30'' = Inr Undefined
      \<and> key_order (map fst ?fs) = [''isChild''] @ ''isBroad'' # [] @ ''isNarrow'' # []
      \<and> (\<forall>k\<in>set [''isChild'']. \<exists>c. map_of ?fs k = Some c
            \<and> object_entry_fails example_host (Num 30) c)
      \<and> map_of ?fs ''isBroad'' = Some ?e1
      \<and> object_entry_matches example_host (Num 30) ?e1 (Str ''Broad'')
      \<and> map_of ?fs ''isNarrow'' = Some ?e3
      \<and> object_entry_matches example_host (Num 30) ?e3 (Str ''Narrow'')"
    using c
    by (simp add: object_entry_fails_def object_entry_matches_def is_match_def
        example_call_def show_int_def show_nat.simps)
  from t [where pre = "[?e0]" and ea = ?e1 and mid = "[]" and eb = ?e2 and post = "[]",
      THEN conjunct1, THEN mp, OF 1]
  have a: "switchCase example_host (Num 30) (Arr 1 [?e0, ?e1, ?e2]) Undefined Undefined
      = Inr (Result (Str ''Broad''))"
    by (simp add: resolve_def)
  from t [where fs = ?fs and key = "''30''" and kpre = "[''isChild'']" and ka = "''isBroad''"
      and kmid = "[]"
      and kb = "''isNarrow''" and kpost = "[]" and ca = ?e1 and cb = ?e3,
      THEN conjunct2, THEN conjunct1, THEN mp, OF 2]
  have b: "switchCase example_host (Num 30) (Obj 1 ?fs) Undefined Undefined
      = Inr (Result (Str ''Broad''))"
    by (simp add: resolve_def)
  from a b c show ?thesis by blast
qed

section \<open>Entries that are undefined\<close>

text \<open>
  Claim C10 says that an entry whose value is \<^verbatim>\<open>undefined\<close> cannot be told from an
  absent key. That holds in the discriminated-union mode (third and fourth call: the
  default handler runs either way). In the object-based mode the fast path is skipped
  and the scan starts, but the scan then reads \<^verbatim>\<open>c.match\<close> of the \<^verbatim>\<open>undefined\<close> entry and
  throws a TypeError (first call), where the same call without the key runs the default
  handler (second call).
\<close>

theorem undefined_entry_object_scan:
  "switchCase example_host (Str ''x'') (Obj 1 [(''x'', Undefined)]) (Fun 4) Undefined
     = Inl TypeError
   \<and> switchCase example_host (Str ''x'') (Obj 1 []) (Fun 4) Undefined
     = Inr (Result (Str ''fallback''))
   \<and> switchCase example_host (Obj 7 [(''kind'', Str ''x'')]) (Str ''kind'')
        (Obj 1 [(''x'', Undefined)]) (Fun 4)
     = Inr (Result (Str ''fallback''))
   \<and> switchCase example_host (Obj 7 [(''kind'', Str ''x'')]) (Str ''kind'')
        (Obj 1 []) (Fun 4)
     = Inr (Result (Str ''fallback''))"
  by (simp add: switchCase_def object_based_def object_entry_def key_order_def
      is_array_index_def is_digit_def discriminated_def default_or_throw_def
      example_call_def)

section \<open>What the cycle guard traverses\<close>







lemma walk_Nil_ref: "walk h (GRef a) [] = Some (GRef b) \<longleftrightarrow> b = a"
  by auto

declare walk.simps(2) [simp del]










section \<open>Cycles and shared references\<close>





end
